theory Spec2Isabelle
  imports Main
begin

section \<open>JavaScript values\<close>

text \<open>
  The generator of \<^verbatim>\<open>src/generateCRUDservices.js\<close> handles plain JavaScript values:
  payloads, query parameters, index specifications and the answers of the store.
  An object is an association list in insertion order; a function value is a
  reference (a number) whose behaviour is supplied where it is called.
\<close>

datatype jsval =
    JUndefined
  | JNull
  | JBool bool
  | JNum int
  | JStr string
  | JArr "jsval list"
  | JObj "(string \<times> jsval) list"
  | JFun nat

text \<open>
  Failures: a thrown exception and a rejected promise are both the left summand
  of a result. \<open>Error\<close> carries the message of \<^verbatim>\<open>new Error(msg)\<close>, \<open>ErrorOf\<close> the value
  handed to \<^verbatim>\<open>new Error(result)\<close> in \<^verbatim>\<open>doInsert\<close>, \<open>ValidationError\<close> is what
  \<^verbatim>\<open>Joi.attempt\<close> throws and \<open>DriverError\<close> what the store rejects with.
\<close>

datatype error =
    TypeError
  | Error string
  | ErrorOf jsval
  | ValidationError string
  | DriverError string

type_synonym 'a result = "error + 'a"

fun truthy :: "jsval \<Rightarrow> bool" where
  "truthy JUndefined = False"
| "truthy JNull = False"
| "truthy (JBool b) = b"
| "truthy (JNum n) = (n \<noteq> 0)"
| "truthy (JStr s) = (s \<noteq> [])"
| "truthy (JArr xs) = True"
| "truthy (JObj kvs) = True"
| "truthy (JFun f) = True"

fun typeof :: "jsval \<Rightarrow> string" where
  "typeof JUndefined = ''undefined''"
| "typeof JNull = ''object''"
| "typeof (JBool b) = ''boolean''"
| "typeof (JNum n) = ''number''"
| "typeof (JStr s) = ''string''"
| "typeof (JArr xs) = ''object''"
| "typeof (JObj kvs) = ''object''"
| "typeof (JFun f) = ''function''"

fun isArray :: "jsval \<Rightarrow> bool" where
  "isArray (JArr xs) = True"
| "isArray v = False"

text \<open>Decimal rendering of an array index, the property name of an element.\<close>

fun show_nat :: "nat \<Rightarrow> string" where
  "show_nat n =
     (if n < 10 then [''0123456789'' ! n]
      else show_nat (n div 10) @ [''0123456789'' ! (n mod 10)])"

declare show_nat.simps [simp del]

definition index_props :: "jsval list \<Rightarrow> (string \<times> jsval) list" where
  "index_props xs = zip (map show_nat [0..<length xs]) xs"

text \<open>The own enumerable properties of a value, as \<^verbatim>\<open>Object.assign\<close> and
  \<^verbatim>\<open>_.omit\<close> copy them: the entries of an object, the elements of an array under
  their indices, the characters of a string under theirs, nothing otherwise.\<close>

fun own_props :: "jsval \<Rightarrow> (string \<times> jsval) list" where
  "own_props (JObj kvs) = kvs"
| "own_props (JArr xs) = index_props xs"
| "own_props (JStr s) = index_props (map (\<lambda>c. JStr [c]) s)"
| "own_props v = []"

definition lookup :: "(string \<times> jsval) list \<Rightarrow> string \<Rightarrow> jsval" where
  "lookup kvs k = (case map_of kvs k of None \<Rightarrow> JUndefined | Some v \<Rightarrow> v)"

text \<open>
  Property read \<^verbatim>\<open>v.k\<close>: a \<^verbatim>\<open>TypeError\<close> on \<^verbatim>\<open>undefined\<close> and \<^verbatim>\<open>null\<close>,
  the own property otherwise (\<^verbatim>\<open>length\<close> for arrays and strings), \<^verbatim>\<open>undefined\<close>
  when there is none. The code reads only \<^verbatim>\<open>id\<close>, \<^verbatim>\<open>changes\<close>, \<^verbatim>\<open>new_val\<close>,
  \<^verbatim>\<open>generated_keys\<close>, \<^verbatim>\<open>length\<close> and the query fields, none of which is
  inherited from a prototype of a plain value.
\<close>

fun get_prop :: "jsval \<Rightarrow> string \<Rightarrow> jsval result" where
  "get_prop JUndefined k = Inl TypeError"
| "get_prop JNull k = Inl TypeError"
| "get_prop (JArr xs) k =
     Inr (if k = ''length'' then JNum (int (length xs)) else lookup (index_props xs) k)"
| "get_prop (JStr s) k =
     Inr (if k = ''length'' then JNum (int (length s))
          else lookup (index_props (map (\<lambda>c. JStr [c]) s)) k)"
| "get_prop (JObj kvs) k = Inr (lookup kvs k)"
| "get_prop v k = Inr JUndefined"

text \<open>Writing a property keeps the position of a key that is already there.\<close>

fun set_field :: "'k \<Rightarrow> 'v \<Rightarrow> ('k \<times> 'v) list \<Rightarrow> ('k \<times> 'v) list" where
  "set_field k v [] = [(k, v)]"
| "set_field k v ((k', v') # kvs) =
     (if k' = k then (k, v) # kvs else (k', v') # set_field k v kvs)"

text \<open>\<^verbatim>\<open>Object.assign({}, s1, ..., sn)\<close>: the sources' own properties, written in turn.\<close>

definition object_assign :: "jsval list \<Rightarrow> jsval" where
  "object_assign sources =
     JObj (foldl (\<lambda>acc src. foldl (\<lambda>a (k, v). set_field k v a) acc (own_props src)) [] sources)"

text \<open>lodash's \<^verbatim>\<open>_.omit(value, key)\<close>: a fresh object with the own properties of
  the value except the named one.\<close>

definition omit :: "jsval \<Rightarrow> string \<Rightarrow> jsval" where
  "omit v k = JObj (filter (\<lambda>(k', _). k' \<noteq> k) (own_props v))"

text \<open>\<^verbatim>\<open>xs[i]\<close> on an array: \<^verbatim>\<open>undefined\<close> out of range.\<close>

definition at_index :: "jsval list \<Rightarrow> nat \<Rightarrow> jsval" where
  "at_index xs i = (if i < length xs then xs ! i else JUndefined)"

section \<open>Index specifications\<close>

text \<open>
  A query-language term built from \<^verbatim>\<open>r.row\<close>: \<open>Row\<close> is \<^verbatim>\<open>r.row\<close> and
  \<open>At t x\<close> is \<^verbatim>\<open>t(x)\<close>, the access of field \<open>x\<close> on \<open>t\<close>.
\<close>

datatype reql = Row | At reql jsval

text \<open>An argument handed to \<^verbatim>\<open>indexCreate\<close> after the index name.\<close>

datatype index_arg =
    Accessor reql
  | Accessors "reql list"
  | Plain jsval

text \<open>\<^verbatim>\<open>s.split('.')\<close>.\<close>

fun split_on :: "char \<Rightarrow> string \<Rightarrow> string list" where
  "split_on c [] = [[]]"
| "split_on c (x # xs) =
     (if x = c then [] # split_on c xs
      else (case split_on c xs of [] \<Rightarrow> [[x]] | y # ys \<Rightarrow> (x # y) # ys))"

text \<open>The four structural tests of \<^verbatim>\<open>processIndexOptions\<close>, in source order
  (the second is \<open>isArray\<close>).\<close>

definition is_dotted :: "jsval \<Rightarrow> bool" where
  "is_dotted options = (case options of JStr s \<Rightarrow> CHR ''.'' \<in> set s | _ \<Rightarrow> False)"

definition is_plain_object :: "jsval \<Rightarrow> bool" where
  "is_plain_object options = (typeof options = ''object'' \<and> \<not> isArray options)"

definition is_callable :: "jsval \<Rightarrow> bool" where
  "is_callable options = (typeof options = ''function'')"

text \<open>\<^verbatim>\<open>options.split('.').reduce((acc, field) => acc(field), r.row)\<close> on a string.\<close>

definition dotted_path :: "jsval \<Rightarrow> reql" where
  "dotted_path options =
     foldl (\<lambda>acc field. At acc (JStr field)) Row
       (split_on CHR ''.'' (case options of JStr s \<Rightarrow> s | _ \<Rightarrow> []))"

text \<open>\<^verbatim>\<open>options.map((field) => r.row(field))\<close> on an array.\<close>

definition field_list :: "jsval \<Rightarrow> reql list" where
  "field_list options = map (\<lambda>field. At Row field) (case options of JArr fields \<Rightarrow> fields | _ \<Rightarrow> [])"

text \<open>
  The call \<^verbatim>\<open>options(r)\<close>. The driver root \<open>r\<close> enters the code only as the
  argument of a caller-supplied function: \<open>r f\<close> is what the function with
  reference \<open>f\<close> returns (or throws) when it is applied to the root.
\<close>

definition call_with_root :: "(nat \<Rightarrow> jsval result) \<Rightarrow> jsval \<Rightarrow> jsval result" where
  "call_with_root r options = (case options of JFun f \<Rightarrow> r f | _ \<Rightarrow> Inl TypeError)"

text \<open>\<^verbatim>\<open>processIndexOptions(r, options)\<close>: four tests in turn, each pushing onto
  \<^verbatim>\<open>processedOptions\<close> when it holds.\<close>

definition processIndexOptions :: "(nat \<Rightarrow> jsval result) \<Rightarrow> jsval \<Rightarrow> index_arg list result" where
  "processIndexOptions r options =
     (let pushed0 = [];
          pushed1 = (if is_dotted options then pushed0 @ [Accessor (dotted_path options)] else pushed0);
          pushed2 = (if isArray options then pushed1 @ [Accessors (field_list options)] else pushed1);
          pushed3 = (if is_plain_object options then pushed2 @ [Plain options] else pushed2)
      in if is_callable options
         then (case call_with_root r options of
                 Inl e \<Rightarrow> Inl e
               | Inr v \<Rightarrow> Inr (pushed3 @ [Plain v]))
         else Inr pushed3)"

section \<open>Queries, the driver and the world\<close>

text \<open>
  The code never touches data itself: it builds a query with the driver's query
  language and hands it to the store with \<^verbatim>\<open>.run(conn)\<close>. A query is the term
  the chained calls build; \<open>Update\<close> stands for
  \<^verbatim>\<open>.update(data, {returnChanges: true})\<close>.
\<close>

datatype query =
    TableList
  | TableCreate string
  | Table string
  | IndexList query
  | IndexCreate query string "index_arg list"
  | Get query jsval
  | Filter query jsval
  | OrderBy query jsval
  | Skip query jsval
  | Limit query jsval
  | Pluck query "jsval list"
  | Insert query jsval
  | Update query jsval

text \<open>
  What can be observed of an operation: the store calls it issues and the hook
  notifications it fires, in order.
\<close>

datatype event = Call query | Before string jsval | After string jsval

record 's world =
  db :: 's
  trace :: "event list"

text \<open>The store behind the connection: it answers (or rejects) a query and moves
  to its next state.\<close>

type_synonym 's driver = "'s \<Rightarrow> query \<Rightarrow> jsval result \<times> 's"

definition run :: "'s driver \<Rightarrow> query \<Rightarrow> 's world \<Rightarrow> jsval result \<times> 's world" where
  "run drv q w =
     (case drv (db w) q of
        (res, s') \<Rightarrow> (res, w\<lparr>db := s', trace := trace w @ [Call q]\<rparr>))"

text \<open>\<^verbatim>\<open>xs.includes(x)\<close> on the answer of a list query: a \<^verbatim>\<open>TypeError\<close> when
  the answer is not an array (an answer that is a string is not modelled).\<close>

fun js_includes :: "jsval \<Rightarrow> jsval \<Rightarrow> bool result" where
  "js_includes (JArr xs) x = Inr (x \<in> set xs)"
| "js_includes v x = Inl TypeError"

section \<open>Schema bootstrap\<close>

definition createTableIfNotExists :: "'s driver \<Rightarrow> string \<Rightarrow> 's world \<Rightarrow> jsval result \<times> 's world" where
  "createTableIfNotExists drv tableName w =
     (case run drv TableList w of
        (Inl e, w1) \<Rightarrow> (Inl e, w1)
      | (Inr tables, w1) \<Rightarrow>
          (case js_includes tables (JStr tableName) of
             Inl e \<Rightarrow> (Inl e, w1)
           | Inr True \<Rightarrow> (Inr (JBool False), w1)
           | Inr False \<Rightarrow> run drv (TableCreate tableName) w1))"

text \<open>
  The callback mapped over \<^verbatim>\<open>Object.keys(indexes)\<close>: every element gives a promise
  (here: its outcome), and a store call is issued the moment \<^verbatim>\<open>.run(conn)\<close> is
  reached, whatever became of the earlier ones. An exception thrown inside the
  callback ends the loop at once.
\<close>

fun index_promises ::
  "(nat \<Rightarrow> jsval result) \<Rightarrow> 's driver \<Rightarrow> string \<Rightarrow> jsval \<Rightarrow> (string \<times> jsval) list \<Rightarrow> 's world
     \<Rightarrow> (jsval result list) result \<times> 's world" where
  "index_promises r drv tableName existingIndexes [] w = (Inr [], w)"
| "index_promises r drv tableName existingIndexes ((indexName, indexOptions) # rest) w =
     (case js_includes existingIndexes (JStr indexName) of
        Inl e \<Rightarrow> (Inl e, w)
      | Inr True \<Rightarrow>
          (case index_promises r drv tableName existingIndexes rest w of
             (Inl e, w') \<Rightarrow> (Inl e, w')
           | (Inr ps, w') \<Rightarrow> (Inr (Inr (JBool True) # ps), w'))
      | Inr False \<Rightarrow>
          (case processIndexOptions r indexOptions of
             Inl e \<Rightarrow> (Inl e, w)
           | Inr args \<Rightarrow>
               (case run drv (IndexCreate (Table tableName) indexName args) w of
                  (p, w1) \<Rightarrow>
                    (case index_promises r drv tableName existingIndexes rest w1 of
                       (Inl e, w') \<Rightarrow> (Inl e, w')
                     | (Inr ps, w') \<Rightarrow> (Inr (p # ps), w')))))"

text \<open>\<^verbatim>\<open>Promise.all\<close>: the array of the values, or the first rejection.\<close>

fun promise_all :: "jsval result list \<Rightarrow> jsval list result" where
  "promise_all [] = Inr []"
| "promise_all (Inl e # ps) = Inl e"
| "promise_all (Inr v # ps) = (case promise_all ps of Inl e \<Rightarrow> Inl e | Inr vs \<Rightarrow> Inr (v # vs))"

definition createIndexesIfNotExist ::
  "(nat \<Rightarrow> jsval result) \<Rightarrow> 's driver \<Rightarrow> string \<Rightarrow> (string \<times> jsval) list \<Rightarrow> 's world
     \<Rightarrow> jsval result \<times> 's world" where
  "createIndexesIfNotExist r drv tableName indexes w =
     (case run drv (IndexList (Table tableName)) w of
        (Inl e, w1) \<Rightarrow> (Inl e, w1)
      | (Inr existingIndexes, w1) \<Rightarrow>
          (case index_promises r drv tableName existingIndexes indexes w1 of
             (Inl e, w2) \<Rightarrow> (Inl e, w2)
           | (Inr ps, w2) \<Rightarrow>
               (case promise_all ps of Inl e \<Rightarrow> (Inl e, w2) | Inr vs \<Rightarrow> (Inr (JArr vs), w2))))"

definition createTable ::
  "(nat \<Rightarrow> jsval result) \<Rightarrow> 's driver \<Rightarrow> string \<Rightarrow> (string \<times> jsval) list \<Rightarrow> 's world
     \<Rightarrow> jsval result \<times> 's world" where
  "createTable r drv tableName indexes w =
     (case createTableIfNotExists drv tableName w of
        (Inl e, w1) \<Rightarrow> (Inl e, w1)
      | (Inr v, w1) \<Rightarrow> createIndexesIfNotExist r drv tableName indexes w1)"

section \<open>An in-memory store\<close>

text \<open>
  Modelled from the spec: the data-store driver is an external collaborator, of
  which the spec (sections 4.1, 4.3, 4.5 and 6) requires: listing and creating
  collections and indexes, filter (by predicate or by equality-object match),
  order, skip, limit, projection and lookup by identifier, insert returning the
  generated keys in submission order, and update returning the changed record.
  The operations of the generator are stated for any driver; this store is the
  concrete one at which they are evaluated, and the one whose list calls report
  what its create calls created.
\<close>

type_synonym table_state = "string list \<times> jsval list"

record mem =
  tables :: "(string \<times> table_state) list"
  next_key :: nat

text \<open>Modelled from the spec: the store's filter by "equality-object match"
  (section 4.1). Every field of the pattern is matched by the field of the row,
  field by field where the pattern's value is an object itself.\<close>

fun matches :: "jsval \<Rightarrow> jsval \<Rightarrow> bool" where
  "matches (JObj pat) row =
     (case row of
        JObj kvs \<Rightarrow>
          list_all (\<lambda>(k, p). case map_of kvs k of None \<Rightarrow> False | Some v \<Rightarrow> matches p v) pat
      | _ \<Rightarrow> False)"
| "matches p row = (p = row)"

definition num_field :: "string \<Rightarrow> jsval \<Rightarrow> int option" where
  "num_field f row = (case row of
       JObj kvs \<Rightarrow> (case map_of kvs f of Some (JNum n) \<Rightarrow> Some n | _ \<Rightarrow> None)
     | _ \<Rightarrow> None)"

definition pluck_row :: "jsval list \<Rightarrow> jsval \<Rightarrow> jsval" where
  "pluck_row flds row = JObj (filter (\<lambda>(k, _). JStr k \<in> set flds) (own_props row))"

definition has_id :: "jsval \<Rightarrow> jsval \<Rightarrow> bool" where
  "has_id key row = (get_prop row ''id'' = Inr key)"

text \<open>Modelled from the spec: the store's execution of a composed query (section
  4.1: filter by predicate or by equality-object match, order, skip, limit,
  projection to the named fields). \<open>pred\<close> interprets a function value given as a
  filter. Ordering is modelled for a field holding numbers, ascending.\<close>

fun select :: "(nat \<Rightarrow> jsval \<Rightarrow> bool) \<Rightarrow> mem \<Rightarrow> query \<Rightarrow> jsval list result" where
  "select pred s (Table t) =
     (case map_of (tables s) t of
        None \<Rightarrow> Inl (DriverError ''Table does not exist'')
      | Some (idx, rows) \<Rightarrow> Inr rows)"
| "select pred s (Filter q f) =
     (case select pred s q of
        Inl e \<Rightarrow> Inl e
      | Inr rows \<Rightarrow>
          (case f of
             JFun p \<Rightarrow> Inr (filter (pred p) rows)
           | JObj pat \<Rightarrow> Inr (filter (matches f) rows)
           | _ \<Rightarrow> Inl (DriverError ''Unsupported filter'')))"
| "select pred s (OrderBy q f) =
     (case select pred s q of
        Inl e \<Rightarrow> Inl e
      | Inr rows \<Rightarrow>
          (case f of
             JStr field \<Rightarrow>
               (if list_all (\<lambda>row. num_field field row \<noteq> None) rows
                then Inr (sort_key (\<lambda>row. the (num_field field row)) rows)
                else Inl (DriverError ''Unsupported ordering''))
           | _ \<Rightarrow> Inl (DriverError ''Unsupported ordering'')))"
| "select pred s (Skip q n) =
     (case select pred s q of
        Inl e \<Rightarrow> Inl e
      | Inr rows \<Rightarrow>
          (case n of
             JNum k \<Rightarrow> (if 0 \<le> k then Inr (drop (nat k) rows) else Inl (DriverError ''Negative skip''))
           | _ \<Rightarrow> Inl (DriverError ''Expected type NUMBER'')))"
| "select pred s (Limit q n) =
     (case select pred s q of
        Inl e \<Rightarrow> Inl e
      | Inr rows \<Rightarrow>
          (case n of
             JNum k \<Rightarrow> (if 0 \<le> k then Inr (take (nat k) rows) else Inl (DriverError ''Negative limit''))
           | _ \<Rightarrow> Inl (DriverError ''Expected type NUMBER'')))"
| "select pred s (Pluck q flds) =
     (case select pred s q of
        Inl e \<Rightarrow> Inl e
      | Inr rows \<Rightarrow> Inr (map (pluck_row flds) rows))"
| "select pred s q = Inl (DriverError ''Not a selection'')"

text \<open>Modelled from the spec: the store's insert (section 4.5: "the store returns
  generated identifiers for however many records were inserted", in submission
  order). A document without an identifier gets the next generated key, one that
  brings an identifier keeps it unless a row has it already.\<close>

fun insert_docs :: "jsval list \<Rightarrow> jsval list \<Rightarrow> nat \<Rightarrow> jsval list \<times> jsval list \<times> nat" where
  "insert_docs [] rows n = (rows, [], n)"
| "insert_docs (d # ds) rows n =
     (if lookup (own_props d) ''id'' = JUndefined
      then (case insert_docs ds (rows @ [object_assign [d, JObj [(''id'', JStr (''k'' @ show_nat n))]]]) (Suc n) of
              (rows', keys, n') \<Rightarrow> (rows', JStr (''k'' @ show_nat n) # keys, n'))
      else if list_ex (has_id (lookup (own_props d) ''id'')) rows
      then insert_docs ds rows n
      else insert_docs ds (rows @ [d]) n)"

definition is_object :: "jsval \<Rightarrow> bool" where
  "is_object v = (case v of JObj kvs \<Rightarrow> True | _ \<Rightarrow> False)"

text \<open>Modelled from the spec: the answer of the store to an insert; the list of the
  generated keys is reported when a key was generated.\<close>

definition mem_insert :: "mem \<Rightarrow> string \<Rightarrow> jsval \<Rightarrow> jsval result \<times> mem" where
  "mem_insert s t data =
     (case map_of (tables s) t of
        None \<Rightarrow> (Inl (DriverError ''Table does not exist''), s)
      | Some (idx, rows) \<Rightarrow>
          (let docs = (case data of JArr xs \<Rightarrow> xs | _ \<Rightarrow> [data]) in
           if \<not> list_all is_object docs then (Inl (DriverError ''Expected type OBJECT''), s)
           else (case insert_docs docs rows (next_key s) of
                   (rows', keys, n') \<Rightarrow>
                     (Inr (JObj ([(''inserted'', JNum (int (length rows') - int (length rows)))]
                                 @ (if keys = [] then [] else [(''generated_keys'', JArr keys)]))),
                      s\<lparr>tables := set_field t (idx, rows') (tables s), next_key := n'\<rparr>))))"

text \<open>Modelled from the spec: the store's update by identifier with "return the
  modified record" semantics (section 4.5): the change set is empty when the row
  is missing or when the merge changes nothing.\<close>

definition mem_update :: "mem \<Rightarrow> string \<Rightarrow> jsval \<Rightarrow> jsval \<Rightarrow> jsval result \<times> mem" where
  "mem_update s t key data =
     (case map_of (tables s) t of
        None \<Rightarrow> (Inl (DriverError ''Table does not exist''), s)
      | Some (idx, rows) \<Rightarrow>
          (case find (has_id key) rows of
             None \<Rightarrow> (Inr (JObj [(''skipped'', JNum 1), (''changes'', JArr [])]), s)
           | Some old \<Rightarrow>
               (let new = object_assign [old, data] in
                if \<not> is_object data then (Inl (DriverError ''Expected type OBJECT''), s)
                else if new = old then (Inr (JObj [(''unchanged'', JNum 1), (''changes'', JArr [])]), s)
                else if \<not> has_id key new then (Inr (JObj [(''errors'', JNum 1), (''changes'', JArr [])]), s)
                else (Inr (JObj [(''replaced'', JNum 1),
                                 (''changes'', JArr [JObj [(''old_val'', old), (''new_val'', new)]])]),
                      s\<lparr>tables := set_field t (idx, map (\<lambda>row. if has_id key row then new else row) rows)
                                     (tables s)\<rparr>))))"

text \<open>Modelled from the spec: the driver capabilities of section 6, that is
  listing and creating collections and indexes, lookup by identifier, the
  composed read queries, insert and update. Creating what exists is rejected;
  deletion is not modelled.\<close>

definition mem_driver :: "(nat \<Rightarrow> jsval \<Rightarrow> bool) \<Rightarrow> mem driver" where
  "mem_driver pred s q =
     (case q of
        TableList \<Rightarrow> (Inr (JArr (map (\<lambda>(t, st). JStr t) (tables s))), s)
      | TableCreate t \<Rightarrow>
          (if map_of (tables s) t \<noteq> None then (Inl (DriverError ''Table already exists''), s)
           else (Inr (JObj [(''tables_created'', JNum 1)]), s\<lparr>tables := tables s @ [(t, ([], []))]\<rparr>))
      | IndexList (Table t) \<Rightarrow>
          (case map_of (tables s) t of
             None \<Rightarrow> (Inl (DriverError ''Table does not exist''), s)
           | Some (idx, rows) \<Rightarrow> (Inr (JArr (map JStr idx)), s))
      | IndexCreate (Table t) name args \<Rightarrow>
          (case map_of (tables s) t of
             None \<Rightarrow> (Inl (DriverError ''Table does not exist''), s)
           | Some (idx, rows) \<Rightarrow>
               (if name \<in> set idx then (Inl (DriverError ''Index already exists''), s)
                else (Inr (JObj [(''created'', JNum 1)]),
                      s\<lparr>tables := set_field t (idx @ [name], rows) (tables s)\<rparr>)))
      | Get (Table t) key \<Rightarrow>
          (case map_of (tables s) t of
             None \<Rightarrow> (Inl (DriverError ''Table does not exist''), s)
           | Some (idx, rows) \<Rightarrow>
               (case find (has_id key) rows of None \<Rightarrow> (Inr JNull, s) | Some row \<Rightarrow> (Inr row, s)))
      | Insert (Table t) data \<Rightarrow> mem_insert s t data
      | Update (Get (Table t) key) data \<Rightarrow> mem_update s t key data
      | Table t \<Rightarrow> (case select pred s q of Inl e \<Rightarrow> (Inl e, s) | Inr rows \<Rightarrow> (Inr (JArr rows), s))
      | Filter q' f \<Rightarrow> (case select pred s q of Inl e \<Rightarrow> (Inl e, s) | Inr rows \<Rightarrow> (Inr (JArr rows), s))
      | OrderBy q' f \<Rightarrow> (case select pred s q of Inl e \<Rightarrow> (Inl e, s) | Inr rows \<Rightarrow> (Inr (JArr rows), s))
      | Skip q' n \<Rightarrow> (case select pred s q of Inl e \<Rightarrow> (Inl e, s) | Inr rows \<Rightarrow> (Inr (JArr rows), s))
      | Limit q' n \<Rightarrow> (case select pred s q of Inl e \<Rightarrow> (Inl e, s) | Inr rows \<Rightarrow> (Inr (JArr rows), s))
      | Pluck q' fs \<Rightarrow> (case select pred s q of Inl e \<Rightarrow> (Inl e, s) | Inr rows \<Rightarrow> (Inr (JArr rows), s))
      | _ \<Rightarrow> (Inl (DriverError ''Unsupported query''), s))"

section \<open>The query builder\<close>

text \<open>The spread \<^verbatim>\<open>...fields\<close> of a call's arguments: the elements of an array,
  the characters of a string, a \<^verbatim>\<open>TypeError\<close> for a value that is not iterable.\<close>

definition spread :: "jsval \<Rightarrow> jsval list result" where
  "spread v = (case v of
       JArr xs \<Rightarrow> Inr xs
     | JStr s \<Rightarrow> Inr (map (\<lambda>c. JStr [c]) s)
     | _ \<Rightarrow> Inl TypeError)"

text \<open>\<^verbatim>\<open>paramsToQuery(params = {})\<close>. Destructuring \<^verbatim>\<open>null\<close> throws.\<close>

definition paramsToQuery :: "string \<Rightarrow> jsval \<Rightarrow> query result" where
  "paramsToQuery tableName params0 =
     (let params = (if params0 = JUndefined then JObj [] else params0);
          query = Table tableName
      in if typeof params = ''string'' then Inr (Get query params)
         else
          (case get_prop params ''orderBy'' of Inl e \<Rightarrow> Inl e | Inr orderBy \<Rightarrow>
          (case get_prop params ''filters'' of Inl e \<Rightarrow> Inl e | Inr filters \<Rightarrow>
          (case get_prop params ''limit'' of Inl e \<Rightarrow> Inl e | Inr limit \<Rightarrow>
          (case get_prop params ''skip'' of Inl e \<Rightarrow> Inl e | Inr skip \<Rightarrow>
          (case get_prop params ''fields'' of Inl e \<Rightarrow> Inl e | Inr flds \<Rightarrow>
            (let query1 = (if truthy filters then Filter query filters else query);
                 query2 = (if truthy orderBy then OrderBy query1 orderBy else query1);
                 query3 = (if truthy skip then Skip query2 skip else query2);
                 query4 = (if truthy limit then Limit query3 limit else query3)
             in if truthy flds
                then (case spread flds of Inl e \<Rightarrow> Inl e | Inr fs \<Rightarrow> Inr (Pluck query4 fs))
                else Inr query4)))))))"

text \<open>The narrowing steps of a query, innermost first, and the collection scan at
  its root: what \<open>paramsToQuery\<close> built, read back from the query.\<close>

datatype stage = SFilter jsval | SOrderBy jsval | SSkip jsval | SLimit jsval | SPluck "jsval list"

fun stages :: "query \<Rightarrow> stage list" where
  "stages (Filter q f) = stages q @ [SFilter f]"
| "stages (OrderBy q f) = stages q @ [SOrderBy f]"
| "stages (Skip q n) = stages q @ [SSkip n]"
| "stages (Limit q n) = stages q @ [SLimit n]"
| "stages (Pluck q fs) = stages q @ [SPluck fs]"
| "stages q = []"

fun root :: "query \<Rightarrow> query" where
  "root (Filter q f) = root q"
| "root (OrderBy q f) = root q"
| "root (Skip q n) = root q"
| "root (Limit q n) = root q"
| "root (Pluck q fs) = root q"
| "root q = q"

text \<open>\<^verbatim>\<open>cursor.toArray()\<close>: the rows of a sequence; a single record has no such
  method.\<close>

definition toArray :: "jsval \<Rightarrow> jsval result" where
  "toArray cursor = (case cursor of JArr rows \<Rightarrow> Inr (JArr rows) | _ \<Rightarrow> Inl TypeError)"

text \<open>\<^verbatim>\<open>map.find\<close> (the name \<open>find\<close> is taken by the list library).\<close>

definition find_op :: "'s driver \<Rightarrow> string \<Rightarrow> jsval \<Rightarrow> 's world \<Rightarrow> jsval result \<times> 's world" where
  "find_op drv tableName params w =
     (case paramsToQuery tableName params of
        Inl e \<Rightarrow> (Inl e, w)
      | Inr q \<Rightarrow>
          (case run drv q w of
             (Inl e, w1) \<Rightarrow> (Inl e, w1)
           | (Inr cursor, w1) \<Rightarrow> (toArray cursor, w1)))"

section \<open>Update\<close>

definition update :: "'s driver \<Rightarrow> string \<Rightarrow> jsval \<Rightarrow> 's world \<Rightarrow> jsval result \<times> 's world" where
  "update drv tableName params w =
     (case get_prop params ''id'' of
        Inl e \<Rightarrow> (Inl e, w)
      | Inr pid \<Rightarrow>
          if \<not> truthy pid
          then (Inl (Error ''You have to provide an id along with the update payload!''), w)
          else
           (case run drv (Update (Get (Table tableName) pid) (omit params ''id'')) w of
              (Inl e, w1) \<Rightarrow> (Inl e, w1)
            | (Inr result, w1) \<Rightarrow>
                (case get_prop result ''changes'' of Inl e \<Rightarrow> (Inl e, w1) | Inr changes \<Rightarrow>
                (case get_prop changes ''length'' of Inl e \<Rightarrow> (Inl e, w1) | Inr len \<Rightarrow>
                   if truthy len
                   then (case get_prop changes ''0'' of Inl e \<Rightarrow> (Inl e, w1) | Inr change \<Rightarrow>
                           (get_prop change ''new_val'', w1))
                   else (Inr params, w1)))))"

section \<open>Validation\<close>

text \<open>
  The validation library is an external collaborator. A schema is the list of its
  declared fields, each with its presence requirement and its coercion (\<open>None\<close>:
  the value is not of the type and cannot be converted).
\<close>

record joi_rule =
  required :: bool
  convert :: "jsval \<Rightarrow> jsval option"

type_synonym joi_schema = "(string \<times> joi_rule) list"

text \<open>Modelled from the spec: the violation the validator throws on (section 4.4:
  "a required field is missing or a typed field fails coercion"), the first in the
  order of the schema's keys.\<close>

fun violation :: "joi_schema \<Rightarrow> (string \<times> jsval) list \<Rightarrow> string option" where
  "violation [] kvs = None"
| "violation ((k, rule) # rules) kvs =
     (if lookup kvs k = JUndefined
      then (if required rule then Some k else violation rules kvs)
      else (case convert rule (lookup kvs k) of
              None \<Rightarrow> Some k
            | Some v \<Rightarrow> violation rules kvs))"

text \<open>The first key of the payload that the schema does not declare.\<close>

fun unknown_key :: "joi_schema \<Rightarrow> (string \<times> jsval) list \<Rightarrow> string option" where
  "unknown_key schema [] = None"
| "unknown_key schema ((k, v) # kvs) =
     (case map_of schema k of None \<Rightarrow> Some k | Some rule \<Rightarrow> unknown_key schema kvs)"

text \<open>Modelled from the spec: the sanitized payload (section 4.4: "validate/coerce
  remaining fields against the schema, strip any field not declared in the
  schema"): the entries of the payload that the schema declares, coerced.\<close>

fun convert_known :: "joi_schema \<Rightarrow> (string \<times> jsval) list \<Rightarrow> (string \<times> jsval) list" where
  "convert_known schema [] = []"
| "convert_known schema ((k, v) # kvs) =
     (case map_of schema k of
        None \<Rightarrow> convert_known schema kvs
      | Some rule \<Rightarrow>
          (k, if v = JUndefined then v
              else (case convert rule v of None \<Rightarrow> v | Some v' \<Rightarrow> v'))
          # convert_known schema kvs)"

text \<open>
  Modelled from the spec: the validator of the library (not part of the
  repository) under its options. Values are converted (the library's default,
  and the option \<^verbatim>\<open>convert: true\<close>). With \<^verbatim>\<open>stripUnknown\<close> the fields the schema
  does not declare are dropped, which is the capability of the spec's section 1
  ("stripping unknown fields and throwing on violation"); without it, which is
  the library's default, such a field is a violation ("is not allowed"), reported
  after the violations of the declared fields.
\<close>

definition joi_validate :: "jsval \<Rightarrow> joi_schema \<Rightarrow> bool \<Rightarrow> jsval result" where
  "joi_validate v schema stripUnknown =
     (case v of
        JObj kvs \<Rightarrow>
          (case violation schema kvs of
             Some k \<Rightarrow> Inl (ValidationError k)
           | None \<Rightarrow>
               if stripUnknown then Inr (JObj (convert_known schema kvs))
               else (case unknown_key schema kvs of
                       Some k \<Rightarrow> Inl (ValidationError k)
                     | None \<Rightarrow> Inr (JObj (convert_known schema kvs))))
      | _ \<Rightarrow> Inl (ValidationError ''value''))"

text \<open>
  \<^verbatim>\<open>Joi.attempt(value, schema, [message])\<close>, by the interface of the library (it
  is not part of the repository): the third argument is the prefix of the
  message of the error that is thrown, not a set of options, so the value is
  validated under the defaults. The text of the message is not modelled: a
  validation error carries the name of the offending field.
\<close>

definition joi_attempt :: "jsval \<Rightarrow> joi_schema \<Rightarrow> jsval \<Rightarrow> jsval result" where
  "joi_attempt v schema message = joi_validate v schema False"

text \<open>The outcomes of a callback mapped over an array: the first exception ends
  the loop.\<close>

fun map_results :: "'a result list \<Rightarrow> 'a list result" where
  "map_results [] = Inr []"
| "map_results (Inl e # rs) = Inl e"
| "map_results (Inr v # rs) = (case map_results rs of Inl e \<Rightarrow> Inl e | Inr vs \<Rightarrow> Inr (v # vs))"

text \<open>\<^verbatim>\<open>map.validate\<close>; the configured schema is \<open>None\<close> when the options give none.
  The source hands the object \<^verbatim>\<open>{convert: true, stripUnknown: true}\<close> to
  \<^verbatim>\<open>Joi.attempt\<close> as its third argument.\<close>

fun validate :: "joi_schema option \<Rightarrow> jsval \<Rightarrow> jsval result" where
  "validate None params = Inr params"
| "validate (Some schema) (JArr items) =
     (case map_results (map (validate (Some schema)) items) of
        Inl e \<Rightarrow> Inl e
      | Inr vs \<Rightarrow> Inr (JArr vs))"
| "validate (Some schema) params =
     joi_attempt (omit params ''id'') schema
       (JObj [(''convert'', JBool True), (''stripUnknown'', JBool True)])"

section \<open>Save\<close>

definition doInsert :: "'s driver \<Rightarrow> string \<Rightarrow> jsval \<Rightarrow> 's world \<Rightarrow> jsval result \<times> 's world" where
  "doInsert drv tableName data w =
     (case run drv (Insert (Table tableName) data) w of
        (Inl e, w1) \<Rightarrow> (Inl e, w1)
      | (Inr result, w1) \<Rightarrow>
          (case get_prop result ''generated_keys'' of
             Inl e \<Rightarrow> (Inl e, w1)
           | Inr generated_keys \<Rightarrow>
               (case generated_keys of
                  JArr keys \<Rightarrow>
                    if length keys = 1
                    then (Inr (object_assign [data, JObj [(''id'', at_index keys 0)]]), w1)
                    else (case data of
                            JArr items \<Rightarrow>
                              (Inr (JArr (map (\<lambda>(item, index).
                                      object_assign [item, JObj [(''id'', at_index keys index)]])
                                    (zip items [0..<length items]))), w1)
                          | _ \<Rightarrow> (Inl TypeError, w1))
                | _ \<Rightarrow> (Inl (ErrorOf result), w1))))"

definition doUpdate :: "'s driver \<Rightarrow> string \<Rightarrow> jsval \<Rightarrow> jsval \<Rightarrow> 's world \<Rightarrow> jsval result \<times> 's world" where
  "doUpdate drv tableName ident data w =
     (case run drv (Update (Get (Table tableName) ident) data) w of
        (Inl e, w1) \<Rightarrow> (Inl e, w1)
      | (Inr result, w1) \<Rightarrow>
          (case get_prop result ''changes'' of Inl e \<Rightarrow> (Inl e, w1) | Inr changes \<Rightarrow>
          (case get_prop changes ''length'' of Inl e \<Rightarrow> (Inl e, w1) | Inr len \<Rightarrow>
             if \<not> truthy len then (Inr data, w1)
             else (case get_prop changes ''0'' of Inl e \<Rightarrow> (Inl e, w1) | Inr change \<Rightarrow>
                     (get_prop change ''new_val'', w1)))))"

definition doSave :: "'s driver \<Rightarrow> string \<Rightarrow> jsval \<Rightarrow> 's world \<Rightarrow> jsval result \<times> 's world" where
  "doSave drv tableName data w =
     (case get_prop data ''id'' of
        Inl e \<Rightarrow> (Inl e, w)
      | Inr ident \<Rightarrow>
          if truthy ident then doUpdate drv tableName ident data w
          else doInsert drv tableName data w)"

definition emit :: "event \<Rightarrow> 's world \<Rightarrow> 's world" where
  "emit ev w = w\<lparr>trace := trace w @ [ev]\<rparr>"

text \<open>
  \<^verbatim>\<open>map.save\<close>. The dispatcher routes \<^verbatim>\<open>namespace.validate\<close> to \<^verbatim>\<open>map.validate\<close>
  of the same map (\<^verbatim>\<open>subscribeMap\<close>), and \<^verbatim>\<open>emitBefore\<close> and \<^verbatim>\<open>emitAfter\<close> notify
  the observers: the notification is what the trace records.
\<close>

definition save ::
  "'s driver \<Rightarrow> string \<Rightarrow> joi_schema option \<Rightarrow> string \<Rightarrow> jsval \<Rightarrow> 's world \<Rightarrow> jsval result \<times> 's world" where
  "save drv namespace schema tableName params w =
     (case validate schema params of
        Inl e \<Rightarrow> (Inl e, w)
      | Inr data \<Rightarrow>
          (case doSave drv tableName data (emit (Before (namespace @ ''.save'') data) w) of
             (Inl e, w1) \<Rightarrow> (Inl e, w1)
           | (Inr result, w1) \<Rightarrow> (Inr result, emit (After (namespace @ ''.save'') result) w1)))"

section \<open>The configuration of the test suite\<close>

text \<open>
  The values the tests of the repository run the generator with, and small stores
  to evaluate the operations at: the namespace \<^verbatim>\<open>entity.User\<close>, its table
  \<^verbatim>\<open>User\<close>, the schema \<^verbatim>\<open>userSchema\<close> and the five index specifications.
\<close>

definition joi_string :: "bool \<Rightarrow> joi_rule" where
  "joi_string req =
     \<lparr>required = req,
      convert = (\<lambda>v. case v of JStr s \<Rightarrow> (if s = [] then None else Some v) | _ \<Rightarrow> None)\<rparr>"

definition digit_value :: "char \<Rightarrow> int" where
  "digit_value c = int (length (takeWhile (\<lambda>d. d \<noteq> c) ''0123456789''))"

text \<open>\<^verbatim>\<open>Joi.number()\<close>, as far as the examples need it: a number is kept, a string
  of decimal digits is converted, any other value is refused. The library holds
  doubles and also converts signed, fractional and exponent forms; those strings
  are outside this rule and occur in no statement below.\<close>

definition joi_number :: "bool \<Rightarrow> joi_rule" where
  "joi_number req =
     \<lparr>required = req,
      convert = (\<lambda>v. case v of
                   JNum n \<Rightarrow> Some v
                 | JStr s \<Rightarrow>
                     (if s \<noteq> [] \<and> list_all (\<lambda>c. c \<in> set ''0123456789'') s
                      then Some (JNum (foldl (\<lambda>acc c. 10 * acc + digit_value c) 0 s))
                      else None)
                 | _ \<Rightarrow> None)\<rparr>"

definition userSchema :: joi_schema where
  "userSchema =
     [(''firstName'', joi_string True),
      (''lastName'', joi_string True),
      (''role'', joi_string False),
      (''age'', joi_number False)]"

definition userIndexes :: "(string \<times> jsval) list" where
  "userIndexes =
     [(''email'', JStr ''email''),
      (''fullname'', JArr [JStr ''firstName'', JStr ''lastName'']),
      (''birthdateYear'', JStr ''birthdate.year''),
      (''hobbies'', JObj [(''multi'', JBool True)]),
      (''summary'', JFun 0)]"

text \<open>The root under which the function of the \<^verbatim>\<open>summary\<close> index returns its
  row function.\<close>

definition test_root :: "nat \<Rightarrow> jsval result" where
  "test_root f = Inr (JFun (Suc f))"

text \<open>The filter function \<^verbatim>\<open>row => row('v').ge(2)\<close>, under reference 0.\<close>

definition ge2 :: "nat \<Rightarrow> jsval \<Rightarrow> bool" where
  "ge2 p row = (p = 0 \<and> (case num_field ''v'' row of None \<Rightarrow> False | Some n \<Rightarrow> 2 \<le> n))"

definition empty_world :: "mem world" where
  "empty_world = \<lparr>db = \<lparr>tables = [], next_key = 0\<rparr>, trace = []\<rparr>"

definition user_world :: "mem world" where
  "user_world = \<lparr>db = \<lparr>tables = [(''User'', ([], []))], next_key = 0\<rparr>, trace = []\<rparr>"

definition john :: jsval where
  "john = JObj [(''firstName'', JStr ''John''), (''lastName'', JStr ''Doe''), (''id'', JStr ''k0'')]"

definition john_world :: "mem world" where
  "john_world = \<lparr>db = \<lparr>tables = [(''User'', ([], [john]))], next_key = 1\<rparr>, trace = []\<rparr>"

definition numbers_world :: "mem world" where
  "numbers_world =
     \<lparr>db = \<lparr>tables = [(''User'', ([], [JObj [(''v'', JNum 3)], JObj [(''v'', JNum 1)], JObj [(''v'', JNum 2)]]))],
             next_key = 0\<rparr>,
      trace = []\<rparr>"

section \<open>Notions used by the properties\<close>

text \<open>The store answers a query with an empty change set.\<close>

definition reports_no_change :: "'s driver \<Rightarrow> 's \<Rightarrow> query \<Rightarrow> bool" where
  "reports_no_change drv s q =
     (case drv s q of
        (Inr result, s') \<Rightarrow> get_prop result ''changes'' = Inr (JArr [])
      | (Inl e, s') \<Rightarrow> False)"

text \<open>A field of the parameter object is given: it is present and its value is
  not one that JavaScript takes for false.\<close>

definition given :: "(string \<times> jsval) list \<Rightarrow> string \<Rightarrow> bool" where
  "given kvs k = (map_of kvs k \<noteq> None \<and> truthy (lookup kvs k))"

text \<open>
  The narrowing steps as section 4.1 of the spec words them, to be compared with
  what \<open>paramsToQuery\<close> builds: "strictly in this order when the corresponding
  field is present: apply filters, apply orderBy, apply skip, apply limit, apply
  fields projection".
\<close>

definition spec_stages :: "(string \<times> jsval) list \<Rightarrow> stage list" where
  "spec_stages kvs =
     (if given kvs ''filters'' then [SFilter (lookup kvs ''filters'')] else []) @
     (if given kvs ''orderBy'' then [SOrderBy (lookup kvs ''orderBy'')] else []) @
     (if given kvs ''skip'' then [SSkip (lookup kvs ''skip'')] else []) @
     (if given kvs ''limit'' then [SLimit (lookup kvs ''limit'')] else []) @
     (if given kvs ''fields''
      then [SPluck (case spread (lookup kvs ''fields'') of Inl e \<Rightarrow> [] | Inr fs \<Rightarrow> fs)]
      else [])"

text \<open>The value a declared field has after validation, and the rule of a schema
  that a payload violates.\<close>

definition coerced :: "joi_rule \<Rightarrow> jsval \<Rightarrow> jsval" where
  "coerced rule v =
     (if v = JUndefined then v else (case convert rule v of None \<Rightarrow> v | Some v' \<Rightarrow> v'))"

definition violates :: "(string \<times> jsval) list \<Rightarrow> string \<times> joi_rule \<Rightarrow> bool" where
  "violates kvs = (\<lambda>(k, rule).
     (if lookup kvs k = JUndefined then required rule else convert rule (lookup kvs k) = None))"

section \<open>Basic facts\<close>

lemmas eval_defs =
  save_def doSave_def doInsert_def doUpdate_def update_def find_op_def toArray_def
  paramsToQuery_def spread_def run_def emit_def
  mem_driver_def mem_insert_def mem_update_def
  object_assign_def omit_def lookup_def is_object_def has_id_def at_index_def index_props_def
  joi_attempt_def joi_validate_def joi_string_def joi_number_def digit_value_def userSchema_def
  num_field_def pluck_row_def ge2_def
  empty_world_def user_world_def john_world_def john_def numbers_world_def
  show_nat.simps

lemma falsy_values:
  "(\<not> truthy v) = (v \<in> {JUndefined, JNull, JBool False, JNum 0, JStr []})"
  by (cases v) auto

lemma map_of_set_field: "map_of (set_field k v kvs) = (map_of kvs)(k \<mapsto> v)"
  by (induction kvs) (auto simp: fun_eq_iff)

text \<open>An array index is written in digits, so \<^verbatim>\<open>id\<close> is no index of an array.\<close>

lemma show_nat_digits: "set (show_nat n) \<subseteq> set ''0123456789''"
proof (induction n rule: show_nat.induct)
  case (1 n)
  have d: "\<And>k. k < 10 \<Longrightarrow> ''0123456789'' ! k \<in> set ''0123456789''"
    by (rule nth_mem) simp
  show ?case
  proof (cases "n < 10")
    case True
    then show ?thesis using d[of n] by (subst show_nat.simps) simp
  next
    case False
    with 1 have "set (show_nat (n div 10)) \<subseteq> set ''0123456789''" by simp
    moreover have "''0123456789'' ! (n mod 10) \<in> set ''0123456789''" by (rule d) simp
    ultimately show ?thesis using False by (subst show_nat.simps) simp
  qed
qed

lemma id_not_index: "''id'' \<noteq> show_nat n"
proof
  assume "''id'' = show_nat n"
  then have "CHR ''i'' \<in> set (show_nat n)" by (metis list.set_intros(1))
  with show_nat_digits[of n] show False by auto
qed

lemma index_props_id: "map_of (index_props xs) ''id'' = None"
proof -
  have "''id'' \<notin> fst ` set (index_props xs)"
  proof
    assume "''id'' \<in> fst ` set (index_props xs)"
    then obtain v where "(''id'', v) \<in> set (zip (map show_nat [0..<length xs]) xs)"
      by (auto simp: index_props_def)
    then have "''id'' \<in> set (map show_nat [0..<length xs])" by (rule set_zip_leftD)
    then obtain n where "''id'' = show_nat n" by auto
    with id_not_index show False by blast
  qed
  then show ?thesis by (simp add: map_of_eq_None_iff)
qed

text \<open>Every store call is recorded, and nothing else is.\<close>

lemma run_trace: "run drv q w = (res, w1) \<Longrightarrow> trace w1 = trace w @ [Call q]"
  by (auto simp: run_def split: prod.splits)

lemma run_no_change:
  assumes "reports_no_change drv (db w) q"
  shows "\<exists>result w1. run drv q w = (Inr result, w1) \<and> get_prop result ''changes'' = Inr (JArr [])"
  using assms by (auto simp: reports_no_change_def run_def split: prod.splits sum.splits)

section \<open>Index specifications: one branch at most\<close>

text \<open>
  C8, as amended. The four structural tests of \<open>processIndexOptions\<close> exclude one
  another, so at most one branch fires, and the argument list has one entry for
  the branch that fired and none otherwise. The function throws only what a
  caller-supplied function throws. A specification that passes no test (a string
  without a dot, a number, a boolean, \<^verbatim>\<open>undefined\<close>) therefore gives the empty
  argument list and no error; \<^verbatim>\<open>null\<close> passes the test for a plain object.
\<close>

theorem processIndexOptions_branches:
  "length (filter id [is_dotted options, isArray options, is_plain_object options, is_callable options]) \<le> 1 \<and>
   (case processIndexOptions r options of
      Inl e \<Rightarrow> is_callable options
    | Inr args \<Rightarrow>
        length args =
          length (filter id [is_dotted options, isArray options, is_plain_object options, is_callable options]))"
  by (cases options)
     (auto simp: processIndexOptions_def dotted_path_def field_list_def call_with_root_def
        is_dotted_def is_plain_object_def is_callable_def split: sum.splits)

text \<open>
  C8 as stated fails: the specification \<^verbatim>\<open>email: 'email'\<close> of the test suite is a
  string without a separator. None of the four tests holds of it, no branch
  fires, and the result is the empty argument list, not an error: the index is
  created from its name alone ("should create a simple index").
\<close>

theorem simple_index_counterexample:
  "\<not> is_dotted (JStr ''email'') \<and> \<not> isArray (JStr ''email'') \<and> \<not> is_plain_object (JStr ''email'') \<and>
   \<not> is_callable (JStr ''email'') \<and> processIndexOptions test_root (JStr ''email'') = Inr []"
  by (simp add: processIndexOptions_def dotted_path_def field_list_def call_with_root_def
        is_dotted_def is_plain_object_def is_callable_def)

text \<open>The other four specifications of the test suite, one per branch.\<close>

lemma processIndexOptions_examples:
  "processIndexOptions test_root (JStr ''birthdate.year'') =
     Inr [Accessor (At (At Row (JStr ''birthdate'')) (JStr ''year''))]"
  "processIndexOptions test_root (JArr [JStr ''firstName'', JStr ''lastName'']) =
     Inr [Accessors [At Row (JStr ''firstName''), At Row (JStr ''lastName'')]]"
  "processIndexOptions test_root (JObj [(''multi'', JBool True)]) = Inr [Plain (JObj [(''multi'', JBool True)])]"
  "processIndexOptions test_root (JFun 0) = Inr [Plain (JFun 1)]"
  by (simp_all add: processIndexOptions_def dotted_path_def field_list_def call_with_root_def
        is_dotted_def is_plain_object_def is_callable_def test_root_def)

section \<open>Schema bootstrap\<close>

lemma promise_all_replicate: "promise_all (replicate n (Inr v)) = Inr (replicate n v)"
  by (induction n) auto

text \<open>An index whose name the list reports is skipped: no call is issued for it.\<close>

lemma index_promises_present:
  "\<forall>(n, opts) \<in> set indexes. JStr n \<in> set ex \<Longrightarrow>
   index_promises r drv t (JArr ex) indexes w = (Inr (replicate (length indexes) (Inr (JBool True))), w)"
  by (induction indexes) auto

text \<open>
  For any driver: when the collection list reports the collection and the index
  list reports every declared name, and listing leaves the store as it is, the
  bootstrap issues the two list calls and nothing else.
\<close>

lemma createTable_skips_existing:
  assumes "drv (db w) TableList = (Inr (JArr ts), db w)" and "JStr t \<in> set ts"
    and "drv (db w) (IndexList (Table t)) = (Inr (JArr ex), db w)"
    and "\<forall>(n, opts) \<in> set indexes. JStr n \<in> set ex"
  shows "createTable r drv t indexes w =
           (Inr (JArr (replicate (length indexes) (JBool True))),
            w\<lparr>trace := trace w @ [Call TableList, Call (IndexList (Table t))]\<rparr>)"
proof -
  define w2 where "w2 = w\<lparr>trace := trace w @ [Call TableList]\<rparr>"
  define w3 where "w3 = w2\<lparr>trace := trace w2 @ [Call (IndexList (Table t))]\<rparr>"
  have a: "createTableIfNotExists drv t w = (Inr (JBool False), w2)"
    using assms(1,2) by (simp add: createTableIfNotExists_def run_def w2_def)
  have b: "run drv (IndexList (Table t)) w2 = (Inr (JArr ex), w3)"
    using assms(3) by (simp add: run_def w2_def w3_def)
  have d: "createIndexesIfNotExist r drv t indexes w2 =
             (Inr (JArr (replicate (length indexes) (JBool True))), w3)"
    by (simp add: createIndexesIfNotExist_def b index_promises_present[OF assms(4)] promise_all_replicate)
  have "createTable r drv t indexes w = (Inr (JArr (replicate (length indexes) (JBool True))), w3)"
    by (simp add: createTable_def a d)
  then show ?thesis
    by (simp add: w3_def w2_def)
qed

text \<open>The in-memory store lists what was created.\<close>

lemma table_listed: "(JStr t \<in> (\<lambda>(t, st). JStr t) ` set ts) = (map_of ts t \<noteq> None)"
  by (induction ts) auto

lemma index_promises_mem:
  assumes "index_promises r (mem_driver pred) t (JArr ex) indexes w = (Inr ps, w')"
    and "promise_all ps = Inr vs"
    and "map_of (tables (db w)) t = Some (idx, rows)"
  shows "\<exists>idx'. map_of (tables (db w')) t = Some (idx', rows) \<and> set idx \<subseteq> set idx' \<and>
           (\<forall>(n, opts) \<in> set indexes. JStr n \<in> set ex \<or> n \<in> set idx')"
  using assms
proof (induction indexes arbitrary: w ps vs idx)
  case Nil
  then show ?case by simp
next
  case (Cons a indexes)
  obtain n opts where a: "a = (n, opts)" by (cases a)
  show ?case
  proof (cases "JStr n \<in> set ex")
    case True
    with Cons.prems a obtain ps' where
      1: "index_promises r (mem_driver pred) t (JArr ex) indexes w = (Inr ps', w')" and
      2: "ps = Inr (JBool True) # ps'"
      by (auto split: prod.splits sum.splits)
    from 2 Cons.prems(2) obtain vs' where 3: "promise_all ps' = Inr vs'"
      by (auto split: sum.splits)
    from Cons.IH[OF 1 3 Cons.prems(3)] True a show ?thesis by auto
  next
    case False
    with Cons.prems a obtain args p w1 ps' where
      0: "processIndexOptions r opts = Inr args" and
      r: "run (mem_driver pred) (IndexCreate (Table t) n args) w = (p, w1)" and
      1: "index_promises r (mem_driver pred) t (JArr ex) indexes w1 = (Inr ps', w')" and
      2: "ps = p # ps'"
      by (auto split: prod.splits sum.splits)
    from 2 Cons.prems(2) obtain v vs' where 3: "promise_all ps' = Inr vs'" and p: "p = Inr v"
      by (cases p) (auto split: sum.splits)
    from r p Cons.prems(3) have 4: "map_of (tables (db w1)) t = Some (idx @ [n], rows)"
      by (auto simp: run_def mem_driver_def map_of_set_field split: if_splits)
    from Cons.IH[OF 1 3 4] a show ?thesis by auto
  qed
qed

lemma createIndexesIfNotExist_mem:
  assumes "createIndexesIfNotExist r (mem_driver pred) t indexes w = (Inr v, w')"
  shows "\<exists>idx rows. map_of (tables (db w')) t = Some (idx, rows) \<and> fst ` set indexes \<subseteq> set idx"
proof -
  from assms obtain idx rows where t: "map_of (tables (db w)) t = Some (idx, rows)"
    by (auto simp: createIndexesIfNotExist_def run_def mem_driver_def split: option.splits)
  define w1 where "w1 = w\<lparr>trace := trace w @ [Call (IndexList (Table t))]\<rparr>"
  have r: "run (mem_driver pred) (IndexList (Table t)) w = (Inr (JArr (map JStr idx)), w1)"
    using t by (simp add: run_def mem_driver_def w1_def)
  from assms r obtain ps vs where
    1: "index_promises r (mem_driver pred) t (JArr (map JStr idx)) indexes w1 = (Inr ps, w')" and
    2: "promise_all ps = Inr vs"
    by (auto simp: createIndexesIfNotExist_def split: prod.splits sum.splits)
  have 3: "map_of (tables (db w1)) t = Some (idx, rows)" using t by (simp add: w1_def)
  from index_promises_mem[OF 1 2 3] show ?thesis by fastforce
qed

text \<open>
  C9. Schema bootstrap is idempotent. After a run that succeeded, a second run
  with the same collection name and index configuration succeeds, leaves the
  store as it is and issues exactly two calls, the collection list and the index
  list: no create-collection and no create-index call. The store is the in-memory
  one, whose lists report what was created.
\<close>

theorem bootstrap_idempotent:
  assumes "createTable r (mem_driver pred) t indexes w = (Inr v, w1)"
  shows "createTable r (mem_driver pred) t indexes w1 =
           (Inr (JArr (replicate (length indexes) (JBool True))),
            w1\<lparr>trace := trace w1 @ [Call TableList, Call (IndexList (Table t))]\<rparr>)"
proof -
  obtain res0 w0 where c0: "createTableIfNotExists (mem_driver pred) t w = (res0, w0)"
    by (cases "createTableIfNotExists (mem_driver pred) t w")
  from assms c0 have "createIndexesIfNotExist r (mem_driver pred) t indexes w0 = (Inr v, w1)"
    by (cases res0) (simp_all add: createTable_def)
  from createIndexesIfNotExist_mem[OF this]
  obtain idx rows where t: "map_of (tables (db w1)) t = Some (idx, rows)" and
    sub: "fst ` set indexes \<subseteq> set idx"
    by blast
  have 1: "mem_driver pred (db w1) TableList = (Inr (JArr (map (\<lambda>(t, st). JStr t) (tables (db w1)))), db w1)"
    by (simp add: mem_driver_def)
  have 2: "JStr t \<in> set (map (\<lambda>(t, st). JStr t) (tables (db w1)))"
    using t by (simp add: table_listed)
  have 3: "mem_driver pred (db w1) (IndexList (Table t)) = (Inr (JArr (map JStr idx)), db w1)"
    using t by (simp add: mem_driver_def)
  have 4: "\<forall>(n, opts) \<in> set indexes. JStr n \<in> set (map JStr idx)"
    using sub by force
  from 1 2 3 4 show ?thesis by (rule createTable_skips_existing)
qed

text \<open>The bootstrap of the test suite on the empty store, and the second run.\<close>

theorem bootstrap_idempotent_witness:
  "createTable test_root (mem_driver ge2) ''User'' userIndexes empty_world =
     (Inr (JArr (replicate 5 (JObj [(''created'', JNum 1)]))),
      \<lparr>db = \<lparr>tables = [(''User'', [''email'', ''fullname'', ''birthdateYear'', ''hobbies'', ''summary''], [])],
              next_key = 0\<rparr>,
        trace = [Call TableList, Call (TableCreate ''User''), Call (IndexList (Table ''User'')),
          Call (IndexCreate (Table ''User'') ''email'' []),
          Call (IndexCreate (Table ''User'') ''fullname''
                  [Accessors [At Row (JStr ''firstName''), At Row (JStr ''lastName'')]]),
          Call (IndexCreate (Table ''User'') ''birthdateYear''
                  [Accessor (At (At Row (JStr ''birthdate'')) (JStr ''year''))]),
          Call (IndexCreate (Table ''User'') ''hobbies'' [Plain (JObj [(''multi'', JBool True)])]),
          Call (IndexCreate (Table ''User'') ''summary'' [Plain (JFun 1)])]\<rparr>) \<and>
   createTable test_root (mem_driver ge2) ''User'' userIndexes
     \<lparr>db = \<lparr>tables = [(''User'', [''email'', ''fullname'', ''birthdateYear'', ''hobbies'', ''summary''], [])],
             next_key = 0\<rparr>,
       trace = [Call TableList, Call (TableCreate ''User''), Call (IndexList (Table ''User'')),
          Call (IndexCreate (Table ''User'') ''email'' []),
          Call (IndexCreate (Table ''User'') ''fullname''
                  [Accessors [At Row (JStr ''firstName''), At Row (JStr ''lastName'')]]),
          Call (IndexCreate (Table ''User'') ''birthdateYear''
                  [Accessor (At (At Row (JStr ''birthdate'')) (JStr ''year''))]),
          Call (IndexCreate (Table ''User'') ''hobbies'' [Plain (JObj [(''multi'', JBool True)])]),
          Call (IndexCreate (Table ''User'') ''summary'' [Plain (JFun 1)])]\<rparr> =
     (Inr (JArr (replicate 5 (JBool True))),
      \<lparr>db = \<lparr>tables = [(''User'', [''email'', ''fullname'', ''birthdateYear'', ''hobbies'', ''summary''], [])],
              next_key = 0\<rparr>,
        trace = [Call TableList, Call (TableCreate ''User''), Call (IndexList (Table ''User'')),
          Call (IndexCreate (Table ''User'') ''email'' []),
          Call (IndexCreate (Table ''User'') ''fullname''
                  [Accessors [At Row (JStr ''firstName''), At Row (JStr ''lastName'')]]),
          Call (IndexCreate (Table ''User'') ''birthdateYear''
                  [Accessor (At (At Row (JStr ''birthdate'')) (JStr ''year''))]),
          Call (IndexCreate (Table ''User'') ''hobbies'' [Plain (JObj [(''multi'', JBool True)])]),
          Call (IndexCreate (Table ''User'') ''summary'' [Plain (JFun 1)]),
          Call TableList, Call (IndexList (Table ''User''))]\<rparr>)"
proof -
  have first: "createTable test_root (mem_driver ge2) ''User'' userIndexes empty_world =
     (Inr (JArr (replicate 5 (JObj [(''created'', JNum 1)]))),
      \<lparr>db = \<lparr>tables = [(''User'', [''email'', ''fullname'', ''birthdateYear'', ''hobbies'', ''summary''], [])],
              next_key = 0\<rparr>,
        trace = [Call TableList, Call (TableCreate ''User''), Call (IndexList (Table ''User'')),
          Call (IndexCreate (Table ''User'') ''email'' []),
          Call (IndexCreate (Table ''User'') ''fullname''
                  [Accessors [At Row (JStr ''firstName''), At Row (JStr ''lastName'')]]),
          Call (IndexCreate (Table ''User'') ''birthdateYear''
                  [Accessor (At (At Row (JStr ''birthdate'')) (JStr ''year''))]),
          Call (IndexCreate (Table ''User'') ''hobbies'' [Plain (JObj [(''multi'', JBool True)])]),
          Call (IndexCreate (Table ''User'') ''summary'' [Plain (JFun 1)])]\<rparr>)"
    by (simp add: createTable_def createTableIfNotExists_def createIndexesIfNotExist_def run_def
        mem_driver_def processIndexOptions_def dotted_path_def field_list_def call_with_root_def
        is_dotted_def is_plain_object_def is_callable_def
        test_root_def userIndexes_def empty_world_def numeral_eq_Suc)
  have len: "length userIndexes = 5" by (simp add: userIndexes_def)
  from bootstrap_idempotent [OF first] first len show ?thesis by simp
qed

section \<open>Update: the identifier and the empty change set\<close>

lemma update_rejects:
  assumes "get_prop params ''id'' = Inr v" and "\<not> truthy v"
  shows "update drv tableName params w =
           (Inl (Error ''You have to provide an id along with the update payload!''), w)"
  using assms by (simp add: update_def)

text \<open>
  C7. For every update payload lacking an \<^verbatim>\<open>id\<close> field the operation fails at once
  with the missing-identifier error: the world it returns is the one it was given,
  so no store call was issued and the store state is unchanged.
\<close>

theorem update_without_id_rejects:
  assumes "map_of kvs ''id'' = None"
  shows "update drv tableName (JObj kvs) w =
           (Inl (Error ''You have to provide an id along with the update payload!''), w)"
proof -
  have "get_prop (JObj kvs) ''id'' = Inr JUndefined"
    using assms by (simp add: lookup_def)
  then show ?thesis
    by (rule update_rejects) simp
qed

text \<open>The payload \<^verbatim>\<open>{firstName: 'A'}\<close> of the spec.\<close>

theorem update_without_id_rejects_witness:
  "update (mem_driver ge2) ''User'' (JObj [(''firstName'', JStr ''A'')]) john_world =
     (Inl (Error ''You have to provide an id along with the update payload!''), john_world)"
  using update_without_id_rejects [of "[(''firstName'', JStr ''A'')]" "mem_driver ge2" "''User''" john_world]
  by simp

text \<open>
  C10. The update operation rejects with the missing-identifier error every
  payload whose \<^verbatim>\<open>id\<close> is falsy: absent (\<^verbatim>\<open>undefined\<close>), \<^verbatim>\<open>null\<close>, \<^verbatim>\<open>false\<close>,
  \<^verbatim>\<open>0\<close> or the empty string. Nothing is sent to the store, so a record with
  such an identifier cannot be updated through this operation.
\<close>

theorem update_falsy_id_rejects:
  assumes "get_prop params ''id'' = Inr v"
    and "v \<in> {JUndefined, JNull, JBool False, JNum 0, JStr []}"
  shows "update drv tableName params w =
           (Inl (Error ''You have to provide an id along with the update payload!''), w)"
  using assms(1) by (rule update_rejects) (use assms(2) in \<open>simp add: falsy_values\<close>)

text \<open>An update of the record with the identifier \<^verbatim>\<open>0\<close>.\<close>

theorem update_falsy_id_rejects_witness:
  "update (mem_driver ge2) ''User'' (JObj [(''id'', JNum 0), (''firstName'', JStr ''A'')]) john_world =
     (Inl (Error ''You have to provide an id along with the update payload!''), john_world)"
  using update_falsy_id_rejects [of "JObj [(''id'', JNum 0), (''firstName'', JStr ''A'')]" "JNum 0"
      "mem_driver ge2" "''User''" john_world]
  by (simp add: lookup_def)

lemma update_no_change:
  assumes "get_prop params ''id'' = Inr pid" and "truthy pid"
    and "reports_no_change drv (db w) (Update (Get (Table tableName) pid) (omit params ''id''))"
  shows "fst (update drv tableName params w) = Inr params"
proof -
  from run_no_change[OF assms(3)] obtain result w1 where
    "run drv (Update (Get (Table tableName) pid) (omit params ''id'')) w = (Inr result, w1)"
    "get_prop result ''changes'' = Inr (JArr [])" by blast
  with assms(1,2) show ?thesis by (simp add: update_def)
qed

lemma doUpdate_no_change:
  assumes "reports_no_change drv (db w) (Update (Get (Table tableName) ident) data)"
  shows "fst (doUpdate drv tableName ident data w) = Inr data"
proof -
  from run_no_change[OF assms] obtain result w1 where
    "run drv (Update (Get (Table tableName) ident) data) w = (Inr result, w1)"
    "get_prop result ''changes'' = Inr (JArr [])" by blast
  then show ?thesis by (simp add: doUpdate_def)
qed

text \<open>
  C5. When the store reports an empty change set for the update it is sent, the
  operation returns the submitted payload itself, not \<^verbatim>\<open>null\<close> and not an error:
  the update operation (which sends the payload without its \<^verbatim>\<open>id\<close>) and the
  update branch of save (which sends the payload as it is; the branch is taken
  when the payload carries a truthy \<^verbatim>\<open>id\<close>, which needs that no schema is
  configured).
\<close>

theorem noop_update_returns_payload:
  assumes "get_prop params ''id'' = Inr pid" and "truthy pid"
  shows "(reports_no_change drv (db w) (Update (Get (Table tableName) pid) (omit params ''id''))
            \<longrightarrow> fst (update drv tableName params w) = Inr params) \<and>
         (reports_no_change drv (db w) (Update (Get (Table tableName) pid) params)
            \<longrightarrow> fst (doSave drv tableName params w) = Inr params \<and>
                fst (save drv namespace None tableName params w) = Inr params)"
proof (intro conjI impI)
  assume "reports_no_change drv (db w) (Update (Get (Table tableName) pid) (omit params ''id''))"
  with assms show "fst (update drv tableName params w) = Inr params"
    by (rule update_no_change)
next
  assume nc: "reports_no_change drv (db w) (Update (Get (Table tableName) pid) params)"
  then have "fst (doUpdate drv tableName pid params w) = Inr params"
    by (rule doUpdate_no_change)
  with assms show "fst (doSave drv tableName params w) = Inr params"
    by (simp add: doSave_def)
next
  assume nc: "reports_no_change drv (db w) (Update (Get (Table tableName) pid) params)"
  define w0 where "w0 = emit (Before (namespace @ ''.save'') params) w"
  have "db w0 = db w" by (simp add: w0_def emit_def)
  with nc have "fst (doUpdate drv tableName pid params w0) = Inr params"
    by (simp add: doUpdate_no_change)
  with assms have "fst (doSave drv tableName params w0) = Inr params"
    by (simp add: doSave_def)
  then show "fst (save drv namespace None tableName params w) = Inr params"
    by (auto simp: save_def w0_def split: prod.splits sum.splits)
qed

text \<open>Updating the stored record John Doe with the values it has.\<close>

lemma john_no_change:
  "reports_no_change (mem_driver ge2) (db john_world) (Update (Get (Table ''User'') (JStr ''k0'')) john)"
  "reports_no_change (mem_driver ge2) (db john_world) (Update (Get (Table ''User'') (JStr ''k0'')) (omit john ''id''))"
  by (simp_all add: reports_no_change_def mem_driver_def mem_update_def john_world_def john_def
        has_id_def lookup_def object_assign_def omit_def is_object_def)

theorem noop_update_returns_payload_witness:
  "get_prop john ''id'' = Inr (JStr ''k0'') \<and> truthy (JStr ''k0'') \<and>
   reports_no_change (mem_driver ge2) (db john_world)
     (Update (Get (Table ''User'') (JStr ''k0'')) (omit john ''id'')) \<and>
   reports_no_change (mem_driver ge2) (db john_world) (Update (Get (Table ''User'') (JStr ''k0'')) john) \<and>
   fst (update (mem_driver ge2) ''User'' john john_world) = Inr john \<and>
   fst (doSave (mem_driver ge2) ''User'' john john_world) = Inr john \<and>
   fst (save (mem_driver ge2) ''entity.User'' None ''User'' john john_world) = Inr john"
proof -
  have 1: "get_prop john ''id'' = Inr (JStr ''k0'')" by (simp add: john_def lookup_def)
  have 2: "truthy (JStr ''k0'')" by simp
  from noop_update_returns_payload [OF 1 2, of "mem_driver ge2" john_world "''User''" "''entity.User''"]
    john_no_change 1 2
  show ?thesis by simp
qed

section \<open>Validation\<close>

lemma convert_known_keys: "fst ` set (convert_known schema kvs) \<subseteq> fst ` set kvs \<inter> fst ` set schema"
proof (induction kvs)
  case Nil
  then show ?case by simp
next
  case (Cons a kvs)
  obtain k v where a: "a = (k, v)" by (cases a)
  show ?case
  proof (cases "map_of schema k")
    case None
    with Cons a show ?thesis by auto
  next
    case (Some rule)
    then have "k \<in> fst ` set schema" by (metis map_of_SomeD fst_conv imageI)
    with Cons a Some show ?thesis by auto
  qed
qed

lemma omit_keys: "omit v k = JObj kvs \<Longrightarrow> k \<notin> fst ` set kvs"
  by (auto simp: omit_def)

lemma joi_validate_omit_id:
  assumes "joi_validate (omit params ''id'') schema strip = Inr out"
  shows "\<exists>kvs. out = JObj kvs \<and> map_of kvs ''id'' = None"
proof -
  obtain kvs0 where o: "omit params ''id'' = JObj kvs0" by (simp add: omit_def)
  then have "''id'' \<notin> fst ` set kvs0" by (rule omit_keys)
  with convert_known_keys[of schema kvs0] have "''id'' \<notin> fst ` set (convert_known schema kvs0)"
    by blast
  then have "map_of (convert_known schema kvs0) ''id'' = None"
    by (simp add: map_of_eq_None_iff)
  with assms o show ?thesis
    by (auto simp: joi_validate_def split: option.splits if_splits)
qed

lemma validate_object:
  assumes "\<not> isArray params"
  shows "validate (Some schema) params = joi_validate (omit params ''id'') schema False"
  using assms by (cases params) (simp_all add: joi_attempt_def)

lemma validate_no_id:
  assumes "validate (Some schema) params = Inr data"
  shows "get_prop data ''id'' = Inr JUndefined"
proof (cases "isArray params")
  case True
  then obtain items where "params = JArr items" by (cases params) simp_all
  with assms obtain vs where "data = JArr vs" by (auto split: sum.splits)
  then show ?thesis by (simp add: lookup_def index_props_id)
next
  case False
  with assms have "joi_validate (omit params ''id'') schema False = Inr data"
    by (simp add: validate_object)
  from joi_validate_omit_id[OF this] show ?thesis by (auto simp: lookup_def)
qed

lemma violation_iff: "(violation schema kvs \<noteq> None) = list_ex (violates kvs) schema"
proof (induction schema)
  case Nil
  then show ?case by simp
next
  case (Cons a schema)
  obtain k rule where a: "a = (k, rule)" by (cases a)
  have v: "violates kvs (k, rule) =
             (if lookup kvs k = JUndefined then required rule else convert rule (lookup kvs k) = None)"
    by (simp add: violates_def)
  have "(violation ((k, rule) # schema) kvs \<noteq> None) =
          (violates kvs (k, rule) \<or> violation schema kvs \<noteq> None)"
    unfolding v by (cases "convert rule (lookup kvs k)") auto
  with Cons.IH show ?case by (simp add: a)
qed

lemma map_of_convert_known:
  assumes "map_of schema k = Some rule"
  shows "map_of (convert_known schema kvs) k = map_option (coerced rule) (map_of kvs k)"
  using assms by (induction kvs) (auto simp: coerced_def split: option.splits)

lemma unknown_key_iff: "(unknown_key schema kvs = None) = (fst ` set kvs \<subseteq> dom (map_of schema))"
  by (induction kvs) (auto split: option.splits)

text \<open>
  What validation does to a payload that is not an array. It succeeds exactly
  when no rule of the schema is violated by the payload without its identifier
  and the payload has no field but its identifier that the schema does not
  declare; it fails with a validation error otherwise. The result of a success
  has no identifier and has the fields of the payload, coerced.
\<close>

lemma validate_object_result:
  assumes "\<not> isArray params" and "omit params ''id'' = JObj flds"
  shows "case validate (Some schema) params of
           Inl e \<Rightarrow> (list_ex (violates flds) schema \<or> unknown_key schema flds \<noteq> None) \<and>
                    (\<exists>k. e = ValidationError k)
         | Inr out \<Rightarrow>
             \<not> list_ex (violates flds) schema \<and> unknown_key schema flds = None \<and>
             (\<exists>kvs. out = JObj kvs \<and> map_of kvs ''id'' = None \<and>
                (\<forall>k. map_of schema k = None \<longrightarrow> map_of kvs k = None) \<and>
                (\<forall>k rule. map_of schema k = Some rule \<longrightarrow>
                   map_of kvs k = map_option (coerced rule) (map_of flds k)))"
proof (cases "violation schema flds")
  case (Some k)
  then have "list_ex (violates flds) schema" using violation_iff[of schema flds] by simp
  moreover have "validate (Some schema) params = Inl (ValidationError k)"
    using assms Some by (simp add: validate_object joi_validate_def)
  ultimately show ?thesis by simp
next
  case None
  then have nv: "\<not> list_ex (violates flds) schema" using violation_iff[of schema flds] by simp
  show ?thesis
  proof (cases "unknown_key schema flds")
    case (Some k)
    with None assms have "validate (Some schema) params = Inl (ValidationError k)"
      by (simp add: validate_object joi_validate_def)
    with Some show ?thesis by simp
  next
    case nu: None
    have v: "validate (Some schema) params = Inr (JObj (convert_known schema flds))"
      using assms None nu by (simp add: validate_object joi_validate_def)
    have 1: "map_of (convert_known schema flds) ''id'' = None"
      using joi_validate_omit_id[of params schema False] v assms(1) by (auto simp: validate_object)
    have 2: "\<forall>k. map_of schema k = None \<longrightarrow> map_of (convert_known schema flds) k = None"
    proof (intro allI impI)
      fix k assume "map_of schema k = None"
      then have "k \<notin> fst ` set schema" by (simp add: map_of_eq_None_iff)
      with convert_known_keys[of schema flds] have "k \<notin> fst ` set (convert_known schema flds)" by blast
      then show "map_of (convert_known schema flds) k = None" by (simp add: map_of_eq_None_iff)
    qed
    from v nv nu 1 2 show ?thesis by (simp add: map_of_convert_known)
  qed
qed

text \<open>
  C6 fails on the code at its own example. The source hands the options
  \<^verbatim>\<open>{convert: true, stripUnknown: true}\<close> to \<^verbatim>\<open>Joi.attempt\<close> in the place of the
  message, so the payload is validated under the defaults, where a field the
  schema does not declare is not allowed. Validating the payload with the
  fields \<^verbatim>\<open>id\<close>, \<^verbatim>\<open>extra\<close>, \<^verbatim>\<open>firstName\<close> and \<^verbatim>\<open>lastName\<close> against the schema
  that declares the two names throws the validation error for \<^verbatim>\<open>extra\<close>; it
  does not yield the payload of the two names.
\<close>

theorem validate_example_rejected:
  "validate (Some [(''firstName'', joi_string True), (''lastName'', joi_string True)])
     (JObj [(''id'', JNum 5), (''extra'', JStr ''x''), (''firstName'', JStr ''A''),
            (''lastName'', JStr ''B'')]) =
     Inl (ValidationError ''extra'')"
  by (simp add: eval_defs)

text \<open>Had the options reached the validator, the example would give what the
  claim says; and the identifier alone is removed as claimed.\<close>

lemma validate_example_with_options:
  "joi_validate
     (omit (JObj [(''id'', JNum 5), (''extra'', JStr ''x''), (''firstName'', JStr ''A''),
                  (''lastName'', JStr ''B'')]) ''id'')
     [(''firstName'', joi_string True), (''lastName'', joi_string True)] True =
     Inr (JObj [(''firstName'', JStr ''A''), (''lastName'', JStr ''B'')])"
  by (simp add: eval_defs)

lemma validate_example_without_extra:
  "validate (Some [(''firstName'', joi_string True), (''lastName'', joi_string True)])
     (JObj [(''id'', JNum 5), (''firstName'', JStr ''A''), (''lastName'', JStr ''B'')]) =
     Inr (JObj [(''firstName'', JStr ''A''), (''lastName'', JStr ''B'')])"
  by (simp add: eval_defs)

text \<open>A missing required field, a value that fails the coercion of its field, and
  one that is coerced.\<close>

lemma validate_missing_required:
  "validate (Some userSchema) (JObj [(''id'', JNum 5), (''firstName'', JStr ''A'')]) =
     Inl (ValidationError ''lastName'')"
  by (simp add: eval_defs)

lemma validate_failed_coercion:
  "validate (Some userSchema)
     (JObj [(''firstName'', JStr ''A''), (''lastName'', JStr ''B''), (''age'', JStr ''old'')]) =
   Inl (ValidationError ''age'')"
  by (simp add: eval_defs)

lemma validate_coerces:
  "validate (Some userSchema)
     (JObj [(''firstName'', JStr ''A''), (''lastName'', JStr ''B''), (''age'', JStr ''42'')]) =
   Inr (JObj [(''firstName'', JStr ''A''), (''lastName'', JStr ''B''), (''age'', JNum 42)])"
  by (simp add: eval_defs)

section \<open>The query builder: the order of the narrowing steps\<close>

lemma given_truthy: "given kvs k = truthy (lookup kvs k)"
  by (auto simp: given_def lookup_def split: option.splits)

lemma paramsToQuery_object:
  "case paramsToQuery tableName (JObj kvs) of
     Inr q \<Rightarrow> root q = Table tableName \<and> stages q = spec_stages kvs
   | Inl e \<Rightarrow> e = TypeError \<and> given kvs ''fields'' \<and> spread (lookup kvs ''fields'') = Inl TypeError"
  by (auto simp: paramsToQuery_def spec_stages_def given_truthy Let_def spread_def
           split: sum.splits jsval.splits)

text \<open>
  C4 as stated fails in its example. The object \<^verbatim>\<open>{v: {gte: 2}}\<close> given as
  \<^verbatim>\<open>filters\<close> goes to the store's filter as it is, where an object is an equality
  match: it asks for rows whose field \<^verbatim>\<open>v\<close> is an object with a field \<^verbatim>\<open>gte\<close>
  equal to 2. None of the rows with \<^verbatim>\<open>v\<close> equal to 1, 2 and 3 is one, and the
  result of the find is empty, not \<^verbatim>\<open>[{v: 3}]\<close>.
\<close>

theorem find_example_counterexample:
  "fst (find_op (mem_driver ge2) ''User''
          (JObj [(''filters'', JObj [(''v'', JObj [(''gte'', JNum 2)])]), (''orderBy'', JStr ''v''),
                 (''skip'', JNum 1), (''limit'', JNum 1)]) numbers_world) = Inr (JArr []) \<and>
   fst (find_op (mem_driver ge2) ''User''
          (JObj [(''filters'', JObj [(''v'', JObj [(''gte'', JNum 2)])]), (''orderBy'', JStr ''v''),
                 (''skip'', JNum 1), (''limit'', JNum 1)]) numbers_world) \<noteq> Inr (JArr [JObj [(''v'', JNum 3)]])"
  by (simp add: eval_defs)

text \<open>
  C4, as amended. For every parameter object the query that is built is a scan
  of the whole collection narrowed by the steps the spec lists, in its order
  (filters, orderBy, skip, limit, fields), each applied exactly when its field is
  given (present and not falsy), with the field's value; the build fails, with a
  \<^verbatim>\<open>TypeError\<close>, only when \<^verbatim>\<open>fields\<close> is given and cannot be spread. In
  particular the find with the predicate "v is at least 2" as its filter,
  \<^verbatim>\<open>orderBy: 'v'\<close>, \<^verbatim>\<open>skip: 1\<close> and \<^verbatim>\<open>limit: 1\<close> builds filter, order, skip,
  limit in this order and yields exactly \<^verbatim>\<open>[{v: 3}]\<close> over the records with
  \<^verbatim>\<open>v\<close> equal to 3, 1 and 2.
\<close>

theorem paramsToQuery_order:
  "(case paramsToQuery tableName (JObj kvs) of
      Inr q \<Rightarrow> root q = Table tableName \<and> stages q = spec_stages kvs
    | Inl e \<Rightarrow> e = TypeError \<and> given kvs ''fields'' \<and> spread (lookup kvs ''fields'') = Inl TypeError) \<and>
   paramsToQuery ''User''
       (JObj [(''filters'', JFun 0), (''orderBy'', JStr ''v''), (''skip'', JNum 1), (''limit'', JNum 1)]) =
     Inr (Limit (Skip (OrderBy (Filter (Table ''User'') (JFun 0)) (JStr ''v'')) (JNum 1)) (JNum 1)) \<and>
   fst (find_op (mem_driver ge2) ''User''
          (JObj [(''filters'', JFun 0), (''orderBy'', JStr ''v''), (''skip'', JNum 1), (''limit'', JNum 1)])
          numbers_world) = Inr (JArr [JObj [(''v'', JNum 3)]])"
proof (intro conjI)
  show "case paramsToQuery tableName (JObj kvs) of
      Inr q \<Rightarrow> root q = Table tableName \<and> stages q = spec_stages kvs
    | Inl e \<Rightarrow> e = TypeError \<and> given kvs ''fields'' \<and> spread (lookup kvs ''fields'') = Inl TypeError"
    by (rule paramsToQuery_object)
qed (simp_all add: eval_defs)

text \<open>The order matters: without the ordering step the same find skips the record
  with \<^verbatim>\<open>v\<close> equal to 3 and yields the one with \<^verbatim>\<open>v\<close> equal to 2.\<close>

lemma find_without_order:
  "fst (find_op (mem_driver ge2) ''User''
          (JObj [(''filters'', JFun 0), (''skip'', JNum 1), (''limit'', JNum 1)])
          numbers_world) = Inr (JArr [JObj [(''v'', JNum 2)]])"
  by (simp add: eval_defs)

text \<open>A field that is present with a falsy value is not applied: \<^verbatim>\<open>limit: 0\<close>
  leaves the query without a limit.\<close>

lemma limit_zero_not_applied:
  "paramsToQuery ''User'' (JObj [(''limit'', JNum 0), (''skip'', JNum 4)]) = Inr (Skip (Table ''User'') (JNum 4))"
  by (simp add: eval_defs)

section \<open>Save: hooks, branches and the batch insert\<close>

lemma doInsert_trace:
  "doInsert drv tableName data w = (res, w1) \<Longrightarrow> trace w1 = trace w @ [Call (Insert (Table tableName) data)]"
  by (auto simp: doInsert_def split: prod.splits sum.splits jsval.splits if_splits dest: run_trace)






text \<open>A validation failure and a persistence failure (the table is missing).\<close>

lemma save_validation_failure:
  "save (mem_driver ge2) ''entity.User'' (Some userSchema) ''User'' (JObj [(''firstName'', JStr ''John'')]) user_world =
     (Inl (ValidationError ''lastName''), user_world)"
  by (simp add: eval_defs)

lemma save_persistence_failure:
  "save (mem_driver ge2) ''entity.User'' (Some userSchema) ''User''
      (JObj [(''firstName'', JStr ''John''), (''lastName'', JStr ''Doe'')]) empty_world =
     (Inl (DriverError ''Table does not exist''),
      empty_world\<lparr>trace :=
         [Before ''entity.User.save'' (JObj [(''firstName'', JStr ''John''), (''lastName'', JStr ''Doe'')]),
          Call (Insert (Table ''User'') (JObj [(''firstName'', JStr ''John''), (''lastName'', JStr ''Doe'')]))]\<rparr>)"
  by (simp add: eval_defs)

text \<open>
  C3. With a schema configured, the validated payload never has an \<^verbatim>\<open>id\<close>: the
  validate step removes the identifier of an object (and an array has none). So
  save takes the insert branch for every payload: the one store call it issues
  is the insert of the validated payload, never an update.
\<close>

theorem save_with_schema_inserts:
  assumes "save drv namespace (Some schema) tableName params w = (res, w')"
  shows "case validate (Some schema) params of
           Inl e \<Rightarrow> res = Inl e \<and> w' = w
         | Inr data \<Rightarrow>
             get_prop data ''id'' = Inr JUndefined \<and>
             trace w' = trace w @ [Before (namespace @ ''.save'') data, Call (Insert (Table tableName) data)]
                          @ (case res of Inl e \<Rightarrow> [] | Inr result \<Rightarrow> [After (namespace @ ''.save'') result])"
proof (cases "validate (Some schema) params")
  case (Inl e)
  with assms have "res = Inl e \<and> w' = w" by (auto simp: save_def)
  with Inl show ?thesis by simp
next
  case (Inr data)
  define w0 where "w0 = emit (Before (namespace @ ''.save'') data) w"
  have noid: "get_prop data ''id'' = Inr JUndefined" using Inr by (rule validate_no_id)
  obtain r1 w1 where s: "doInsert drv tableName data w0 = (r1, w1)"
    by (cases "doInsert drv tableName data w0")
  have ds: "doSave drv tableName data w0 = (r1, w1)"
    using noid s by (simp add: doSave_def)
  have t1: "trace w1 = trace w @ [Before (namespace @ ''.save'') data, Call (Insert (Table tableName) data)]"
    using doInsert_trace[OF s] by (simp add: w0_def emit_def)
  from assms Inr ds have "res = r1 \<and> w' = (case r1 of Inl e \<Rightarrow> w1 | Inr result \<Rightarrow> emit (After (namespace @ ''.save'') result) w1)"
    by (auto simp: save_def w0_def split: sum.splits)
  with t1 have "trace w' = trace w @ [Before (namespace @ ''.save'') data, Call (Insert (Table tableName) data)]
                          @ (case res of Inl e \<Rightarrow> [] | Inr result \<Rightarrow> [After (namespace @ ''.save'') result])"
    by (auto simp: emit_def split: sum.splits)
  with noid Inr show ?thesis by simp
qed

text \<open>Saving a payload that carries the identifier of the stored record: the
  record is not updated, a second one is inserted under a new key.\<close>

theorem save_with_schema_inserts_witness:
  "save (mem_driver ge2) ''entity.User'' (Some userSchema) ''User''
      (JObj [(''id'', JStr ''k0''), (''firstName'', JStr ''John''), (''lastName'', JStr ''Donovan'')]) john_world =
     (Inr (JObj [(''firstName'', JStr ''John''), (''lastName'', JStr ''Donovan''), (''id'', JStr ''k1'')]),
      \<lparr>db = \<lparr>tables = [(''User'', ([], [john,
                 JObj [(''firstName'', JStr ''John''), (''lastName'', JStr ''Donovan''), (''id'', JStr ''k1'')]]))],
              next_key = 2\<rparr>,
        trace = [Before ''entity.User.save'' (JObj [(''firstName'', JStr ''John''), (''lastName'', JStr ''Donovan'')]),
                 Call (Insert (Table ''User'') (JObj [(''firstName'', JStr ''John''), (''lastName'', JStr ''Donovan'')])),
                 After ''entity.User.save''
                   (JObj [(''firstName'', JStr ''John''), (''lastName'', JStr ''Donovan''), (''id'', JStr ''k1'')])]\<rparr>) \<and>
   get_prop (JObj [(''firstName'', JStr ''John''), (''lastName'', JStr ''Donovan'')]) ''id'' = Inr JUndefined"
proof -
  have v: "validate (Some userSchema)
             (JObj [(''id'', JStr ''k0''), (''firstName'', JStr ''John''), (''lastName'', JStr ''Donovan'')]) =
             Inr (JObj [(''firstName'', JStr ''John''), (''lastName'', JStr ''Donovan'')])"
    by (simp add: eval_defs)
  have s: "save (mem_driver ge2) ''entity.User'' (Some userSchema) ''User''
      (JObj [(''id'', JStr ''k0''), (''firstName'', JStr ''John''), (''lastName'', JStr ''Donovan'')]) john_world =
     (Inr (JObj [(''firstName'', JStr ''John''), (''lastName'', JStr ''Donovan''), (''id'', JStr ''k1'')]),
      \<lparr>db = \<lparr>tables = [(''User'', ([], [john,
                 JObj [(''firstName'', JStr ''John''), (''lastName'', JStr ''Donovan''), (''id'', JStr ''k1'')]]))],
              next_key = 2\<rparr>,
        trace = [Before ''entity.User.save'' (JObj [(''firstName'', JStr ''John''), (''lastName'', JStr ''Donovan'')]),
                 Call (Insert (Table ''User'') (JObj [(''firstName'', JStr ''John''), (''lastName'', JStr ''Donovan'')])),
                 After ''entity.User.save''
                   (JObj [(''firstName'', JStr ''John''), (''lastName'', JStr ''Donovan''), (''id'', JStr ''k1'')])]\<rparr>)"
    by (simp add: eval_defs)
  from save_with_schema_inserts [OF s] v s show ?thesis by simp
qed

text \<open>The batch insert. When the store returns as many keys as there are records
  and the batch does not have exactly one record, record \<open>i\<close> comes back with key
  \<open>i\<close> attached, in submission order.\<close>

lemma attach_ids:
  assumes "length keys = length items"
  shows "map (\<lambda>(item, index). object_assign [item, JObj [(''id'', at_index keys index)]])
             (zip items [0..<length items]) =
         map (\<lambda>(item, key). object_assign [item, JObj [(''id'', key)]]) (zip items keys)"
  using assms by (intro nth_equalityI) (simp_all add: at_index_def)

lemma doInsert_batch:
  assumes "drv (db w) (Insert (Table tableName) (JArr items)) = (Inr result, s')"
    and "get_prop result ''generated_keys'' = Inr (JArr keys)"
    and "length keys = length items"
    and "length items \<noteq> 1"
  shows "fst (doInsert drv tableName (JArr items) w) =
           Inr (JArr (map (\<lambda>(item, key). object_assign [item, JObj [(''id'', key)]]) (zip items keys)))"
  using assms by (simp add: doInsert_def run_def attach_ids)

lemma save_batch_of_three:
  "fst (save (mem_driver ge2) ''entity.User'' (Some userSchema) ''User''
          (JArr [JObj [(''firstName'', JStr ''John1''), (''lastName'', JStr ''Doe1'')],
                 JObj [(''firstName'', JStr ''John2''), (''lastName'', JStr ''Doe2'')],
                 JObj [(''firstName'', JStr ''John3''), (''lastName'', JStr ''Doe3'')]]) user_world) =
     Inr (JArr [JObj [(''firstName'', JStr ''John1''), (''lastName'', JStr ''Doe1''), (''id'', JStr ''k0'')],
                JObj [(''firstName'', JStr ''John2''), (''lastName'', JStr ''Doe2''), (''id'', JStr ''k1'')],
                JObj [(''firstName'', JStr ''John3''), (''lastName'', JStr ''Doe3''), (''id'', JStr ''k2'')]])"
  by (simp add: eval_defs upt_rec)

text \<open>The empty batch: the in-memory store generates no key and reports no list
  of generated keys, and \<open>doInsert\<close> throws.\<close>

lemma save_empty_batch:
  "fst (save (mem_driver ge2) ''entity.User'' (Some userSchema) ''User'' (JArr []) user_world) =
     Inl (ErrorOf (JObj [(''inserted'', JNum 0)]))"
  by (simp add: eval_defs)

text \<open>A batch of one record takes the branch of the single record, whatever the
  driver: the array is copied into an object, the record under the key \<^verbatim>\<open>0\<close>.\<close>

lemma doInsert_batch_of_one:
  assumes "drv (db w) (Insert (Table tableName) (JArr [item])) = (Inr result, s')"
    and "get_prop result ''generated_keys'' = Inr (JArr [key])"
  shows "fst (doInsert drv tableName (JArr [item]) w) = Inr (JObj [(''0'', item), (''id'', key)])"
  using assms
  by (simp add: doInsert_def run_def object_assign_def index_props_def at_index_def show_nat.simps)

text \<open>
  C1 fails on the code for an array of one payload. \<open>doInsert\<close> tells the single
  record from the batch by the number of generated keys
  (\<^verbatim>\<open>generated_keys.length === 1\<close>), not by the payload being an array. Saving
  the array of the one record John1 Doe1 returns the object with the record under
  the key \<^verbatim>\<open>0\<close> and the generated key as \<^verbatim>\<open>id\<close>, not an array of length one
  holding the record with its identifier.
\<close>

theorem save_batch_of_one:
  "fst (save (mem_driver ge2) ''entity.User'' (Some userSchema) ''User''
          (JArr [JObj [(''firstName'', JStr ''John1''), (''lastName'', JStr ''Doe1'')]]) user_world) =
     Inr (JObj [(''0'', JObj [(''firstName'', JStr ''John1''), (''lastName'', JStr ''Doe1'')]),
                (''id'', JStr ''k0'')])"
  by (simp add: eval_defs)

end
